theory Spec2Isabelle
  imports Main
begin

section \<open>Python strings, slices and the string methods the server uses\<close>

text \<open>
  A Python \<open>str\<close> is a sequence of Unicode code points and \<open>len\<close> counts code points.
  A character is therefore modelled by its code point (a natural number) and a string by
  the list of its code points. \<open>lit\<close> embeds the ASCII literals of the source.
\<close>

type_synonym pychar = nat
type_synonym pystr = "pychar list"

definition lit :: "string \<Rightarrow> pystr" where
  "lit s = map of_char s"

abbreviation len :: "'a list \<Rightarrow> int" where
  "len xs \<equiv> int (length xs)"

definition NL :: pychar where
  "NL = 10"

text \<open>
  The slices \<open>xs[:k]\<close> and \<open>xs[k:]\<close>: a negative bound counts from the end and every
  bound is clipped to the list, so no slice raises.
\<close>

definition slice_to :: "'a list \<Rightarrow> int \<Rightarrow> 'a list" where
  "slice_to xs k = (if k < 0 then take (nat (len xs + k)) xs else take (nat k) xs)"

definition slice_from :: "'a list \<Rightarrow> int \<Rightarrow> 'a list" where
  "slice_from xs k = (if k < 0 then drop (nat (len xs + k)) xs else drop (nat k) xs)"

text \<open>
  \<open>str.isspace\<close> on one code point: the characters \<open>str.strip()\<close> removes when it is
  called without an argument.
\<close>

definition isspace :: "pychar \<Rightarrow> bool" where
  "isspace c \<longleftrightarrow>
     (9 \<le> c \<and> c \<le> 13) \<or> (28 \<le> c \<and> c \<le> 32) \<or> c = 133 \<or> c = 160 \<or> c = 5760 \<or>
     (8192 \<le> c \<and> c \<le> 8202) \<or> c = 8232 \<or> c = 8233 \<or> c = 8239 \<or> c = 8287 \<or> c = 12288"

definition strip :: "pystr \<Rightarrow> pystr" where
  "strip s = rev (dropWhile isspace (rev (dropWhile isspace s)))"

text \<open>\<open>s.split('\n')\<close>: the result is never empty; the empty string gives one empty line.\<close>

fun split_nl :: "pystr \<Rightarrow> pystr list" where
  "split_nl [] = [[]]"
| "split_nl (c # cs) =
     (if c = NL then [] # split_nl cs
      else (case split_nl cs of [] \<Rightarrow> [[c]] | l # ls \<Rightarrow> (c # l) # ls))"

text \<open>\<open>sep.join(parts)\<close>.\<close>

fun join :: "pystr \<Rightarrow> pystr list \<Rightarrow> pystr" where
  "join sep [] = []"
| "join sep [x] = x"
| "join sep (x # y # ys) = x @ sep @ join sep (y # ys)"

text \<open>The decimal text an f-string gives an integer.\<close>

fun str_nat :: "nat \<Rightarrow> pystr" where
  "str_nat n = (if n < 10 then [48 + n] else str_nat (n div 10) @ [48 + n mod 10])"

declare str_nat.simps [simp del]

definition str_int :: "int \<Rightarrow> pystr" where
  "str_int i = (if i < 0 then 45 # str_nat (nat (- i)) else str_nat (nat i))"

text \<open>
  \<open>str.capitalize()\<close>: the first character in upper case, the others in lower case. The
  case mapping is written out for the ASCII letters only: the cell types of the notebook
  format are the ASCII words code, markdown and raw. Python also maps letters outside
  ASCII, and may change the length there; the model leaves such code points as they are,
  so it gives the header of the code only for a cell type made of ASCII characters.
\<close>

definition upper_char :: "pychar \<Rightarrow> pychar" where
  "upper_char c = (if 97 \<le> c \<and> c \<le> 122 then c - 32 else c)"

definition lower_char :: "pychar \<Rightarrow> pychar" where
  "lower_char c = (if 65 \<le> c \<and> c \<le> 90 then c + 32 else c)"

fun capitalize :: "pystr \<Rightarrow> pystr" where
  "capitalize [] = []"
| "capitalize (c # cs) = upper_char c # map lower_char cs"


section \<open>Data model: outputs, cells and the two state slots\<close>

text \<open>
  The value under a MIME type of an \<open>execute_result\<close> is one string or a list of lines.
  The \<open>data\<close> dictionary is an association list read with \<open>map_of\<close>.
\<close>

datatype mime_value = Text pystr | TextLines "pystr list"

datatype "output" =
    Stream pystr
  | ExecuteResult "(pystr \<times> mime_value) list"
  | Error pystr pystr
  | OtherOutput

record cell =
  cell_type :: pystr
  source :: pystr
  outputs :: "output list"

record server_state =
  guidelines :: "pystr list"
  notebook_cells :: "cell list"


section \<open>The truncation configuration of \<open>get_prompt_for_claude\<close>\<close>

definition MAX_LINES_PER_CODE_CELL :: int where
  "MAX_LINES_PER_CODE_CELL = 15"

definition MAX_CHARS_PER_MD_CELL :: int where
  "MAX_CHARS_PER_MD_CELL = 250"

definition MAX_OUTPUT_CHARS_STREAM :: int where
  "MAX_OUTPUT_CHARS_STREAM = 100"

definition MAX_OUTPUT_CHARS_EXEC_RESULT :: int where
  "MAX_OUTPUT_CHARS_EXEC_RESULT = 150"

definition MAX_ERROR_CHARS :: int where
  "MAX_ERROR_CHARS = 100"

definition MAX_TOTAL_NOTEBOOK_CHARS :: int where
  "MAX_TOTAL_NOTEBOOK_CHARS = 150000"


section \<open>Rendering one cell (lines 101 to 157 of main.py)\<close>

definition code_marker :: "int \<Rightarrow> pystr" where
  "code_marker omitted =
     lit ''\<newline>... [CODE TRUNCATED - '' @ str_int omitted @ lit '' lines omitted] ...\<newline>''"

definition md_marker :: pystr where
  "md_marker = lit ''\<newline>... [MARKDOWN TRUNCATED] ...''"

definition stream_marker :: pystr where
  "stream_marker = lit ''\<newline>... [STREAM OUTPUT TRUNCATED - middle omitted] ...\<newline>''"

definition exec_marker :: pystr where
  "exec_marker = lit ''\<newline>... [EXEC RESULT TRUNCATED - middle omitted] ...\<newline>''"

definition error_marker :: pystr where
  "error_marker = lit ''\<newline>... [ERROR TRUNCATED] ...''"

definition image_placeholder :: pystr where
  "image_placeholder =
     lit ''Output (image/plot): [Image data omitted. Refer to code for generation logic.]''"

definition skip_marker :: pystr where
  "skip_marker =
     lit ''[Remaining cell content and subsequent cells skipped due to overall notebook content length limit.]''"

text \<open>Lines 107 to 113: the source of a code cell, cut by lines.\<close>

definition trimmed_code_source :: "pystr \<Rightarrow> pystr" where
  "trimmed_code_source src =
     (let lines = split_nl src in
      if len lines > MAX_LINES_PER_CODE_CELL then
        (let head_lines_len = MAX_LINES_PER_CODE_CELL div 2;
             tail_lines_len = MAX_LINES_PER_CODE_CELL - head_lines_len
         in join [NL] (slice_to lines head_lines_len)
            @ code_marker (len lines - MAX_LINES_PER_CODE_CELL)
            @ join [NL] (slice_from lines (- tail_lines_len)))
      else src)"

text \<open>Lines 116 and 117: the source of a markdown cell, cut to a prefix.\<close>

definition trimmed_md_source :: "pystr \<Rightarrow> pystr" where
  "trimmed_md_source src =
     (if len src > MAX_CHARS_PER_MD_CELL
      then slice_to src MAX_CHARS_PER_MD_CELL @ md_marker
      else src)"

text \<open>Lines 125 to 132: the text of a stream output, cut to a head and a tail.\<close>

definition trimmed_stream :: "pystr \<Rightarrow> pystr" where
  "trimmed_stream output_data =
     (if len output_data > MAX_OUTPUT_CHARS_STREAM then
        (let head_len = MAX_OUTPUT_CHARS_STREAM div 2;
             tail_len = MAX_OUTPUT_CHARS_STREAM - head_len - len stream_marker;
             tail_len = (if tail_len < 0 then 0 else tail_len)
         in slice_to output_data head_len
            @ stream_marker
            @ slice_from output_data (len output_data - tail_len))
      else output_data)"

text \<open>Lines 140 to 147: the plain text of an execute_result, cut to a head and a tail.\<close>

definition trimmed_exec_result :: "pystr \<Rightarrow> pystr" where
  "trimmed_exec_result output_data =
     (if len output_data > MAX_OUTPUT_CHARS_EXEC_RESULT then
        (let head_len = MAX_OUTPUT_CHARS_EXEC_RESULT div 2;
             tail_len = MAX_OUTPUT_CHARS_EXEC_RESULT - head_len - len exec_marker;
             tail_len = (if tail_len < 0 then 0 else tail_len)
         in slice_to output_data head_len
            @ exec_marker
            @ slice_from output_data (len output_data - tail_len))
      else output_data)"

text \<open>Lines 152 to 154: the text of an error output, cut to a prefix.\<close>

definition error_text :: "pystr \<Rightarrow> pystr \<Rightarrow> pystr" where
  "error_text ename evalue =
     lit ''Error Type: '' @ ename @ lit ''\<newline>Error Value: '' @ evalue"

definition trimmed_error :: "pystr \<Rightarrow> pystr" where
  "trimmed_error output_data =
     (if len output_data > MAX_ERROR_CHARS
      then slice_to output_data MAX_ERROR_CHARS @ error_marker
      else output_data)"

definition fenced :: "string \<Rightarrow> pystr \<Rightarrow> pystr" where
  "fenced label output_data =
     lit label @ lit ''\<newline>```\<newline>'' @ output_data @ lit ''\<newline>```''"

text \<open>
  Lines 123 to 155, the body of the loop over the outputs: the parts one output appends to
  \<open>output_text_parts\<close> (none or one). \<open>plain_text\<close> is lines 137 to 139: a list under
  \<open>text/plain\<close> is joined with newlines.
\<close>

fun plain_text :: "mime_value \<Rightarrow> pystr" where
  "plain_text (Text s) = s"
| "plain_text (TextLines ls) = join [NL] ls"

fun output_part :: "output \<Rightarrow> pystr list" where
  "output_part (Stream text) = [fenced ''Output (stream):'' (trimmed_stream text)]"
| "output_part (ExecuteResult data) =
     (case map_of data (lit ''text/plain'') of
        Some v \<Rightarrow> [fenced ''Output (result):'' (trimmed_exec_result (plain_text v))]
      | None \<Rightarrow>
          (if map_of data (lit ''image/png'') \<noteq> None then [image_placeholder] else []))"
| "output_part (Error ename evalue) =
     [fenced ''Output (error):'' (trimmed_error (error_text ename evalue))]"
| "output_part OtherOutput = []"

definition cell_parts :: "cell \<Rightarrow> pystr list" where
  "cell_parts c =
     (let src = strip (source c) in
      if cell_type c = lit ''code'' then [trimmed_code_source src]
      else if cell_type c = lit ''markdown'' then [trimmed_md_source src]
      else [])"

definition output_text_parts :: "cell \<Rightarrow> pystr list" where
  "output_text_parts c =
     (if cell_type c = lit ''code'' \<and> outputs c \<noteq> []
      then concat (map output_part (outputs c))
      else [])"

definition cell_content :: "cell \<Rightarrow> pystr" where
  "cell_content c = join [NL, NL] (cell_parts c @ output_text_parts c)"

text \<open>Line 102; \<open>idx\<close> is the 0-based position that \<open>enumerate\<close> gives.\<close>

definition cell_header :: "int \<Rightarrow> cell \<Rightarrow> pystr" where
  "cell_header idx c =
     lit ''# Cell '' @ str_int (idx + 1) @ lit '' - '' @ capitalize (cell_type c) @ [NL]"


section \<open>Assembling the notebook content (lines 97 to 167)\<close>

text \<open>
  The \<open>for\<close> loop with its \<open>break\<close>. The arguments are the loop variables: the index, the
  running total \<open>current_total_notebook_chars\<close>, the cells still to visit and the list
  \<open>trimmed_cells_content\<close> built so far.
\<close>

fun cells_loop :: "int \<Rightarrow> int \<Rightarrow> cell list \<Rightarrow> pystr list \<Rightarrow> pystr list" where
  "cells_loop idx current_total [] trimmed = trimmed"
| "cells_loop idx current_total (c # cs) trimmed =
     (if current_total + len (cell_header idx c) + len (cell_content c) > MAX_TOTAL_NOTEBOOK_CHARS
      then trimmed @ [cell_header idx c @ skip_marker]
      else cells_loop (idx + 1) (current_total + len (cell_header idx c) + len (cell_content c)) cs
             (trimmed @ [cell_header idx c @ cell_content c]))"

definition trimmed_cells_content :: "cell list \<Rightarrow> pystr list" where
  "trimmed_cells_content cells = cells_loop 0 0 cells []"

definition final_notebook_content_str :: "cell list \<Rightarrow> pystr" where
  "final_notebook_content_str cells = join [NL, NL] (trimmed_cells_content cells)"


section \<open>Composing the prompt (lines 77 to 80 and 169 to 188)\<close>

text \<open>
  Lines 177 and 178: the loop over \<open>enumerate(guidelines, 1)\<close>, which appends one line to
  the prompt for each guideline.
\<close>

fun guidelines_loop :: "int \<Rightarrow> pystr list \<Rightarrow> pystr \<Rightarrow> pystr" where
  "guidelines_loop i [] prompt = prompt"
| "guidelines_loop i (g # gs) prompt =
     guidelines_loop (i + 1) gs
       (prompt @ lit ''Guideline '' @ str_int i @ lit '': '' @ g @ [NL])"

definition prompt_preamble :: pystr where
  "prompt_preamble =
     lit ''Below is the content of a Jupyter notebook. Please review this notebook based on the specific guidelines provided afterwards.\<newline>''
     @ lit ''Note that some code cells, markdown cells, or their outputs may be truncated due to length limits.\<newline>\<newline>''
     @ lit ''--- START NOTEBOOK CONTENT ---\<newline>''"

definition analysis_instructions :: pystr where
  "analysis_instructions =
     lit ''--- ANALYSIS INSTRUCTIONS ---\<newline>''
     @ lit ''Please evaluate the notebook content based on the guidelines. For each guideline, state whether it is met or not, and provide specific, constructive feedback and reasoning. Cite specific cell numbers where relevant.\<newline>''
     @ lit ''Example feedback format:\<newline>''
     @ lit ''Guideline X: [Met/Not Met]\<newline>''
     @ lit ''Feedback: [Your specific feedback, referencing relevant cell numbers]\<newline>\<newline>''
     @ lit ''--- END ANALYSIS INSTRUCTIONS ---\<newline>''"

definition build_prompt :: "pystr list \<Rightarrow> cell list \<Rightarrow> pystr" where
  "build_prompt gs cells =
     (let prompt = prompt_preamble;
          prompt = prompt @ final_notebook_content_str cells;
          prompt = prompt @ lit ''\<newline>--- END NOTEBOOK CONTENT ---\<newline>\<newline>'';
          prompt = prompt @ lit ''--- REVIEW GUIDELINES ---\<newline>'';
          prompt = guidelines_loop 1 gs prompt;
          prompt = prompt @ lit ''--- END REVIEW GUIDELINES ---\<newline>\<newline>'';
          prompt = prompt @ analysis_instructions
      in strip prompt)"

text \<open>
  The tool itself. \<open>args\<close> and \<open>kwargs\<close> are the positional and keyword arguments of
  \<open>*args, **kwargs\<close>; the two global slots are read from the state.
\<close>

definition get_prompt_for_claude :: "'a list \<Rightarrow> (pystr \<times> 'a) list \<Rightarrow> server_state \<Rightarrow> pystr" where
  "get_prompt_for_claude args kwargs st =
     (if guidelines st = [] then lit ''No guidelines loaded. Use `load_guidelines()` first.''
      else if notebook_cells st = [] then
        lit ''No notebook loaded. Use `load_notebook()` or `load_notebook_content()` first.''
      else build_prompt (guidelines st) (notebook_cells st))"


section \<open>Loading a notebook (lines 30 to 67)\<close>

text \<open>
  \<open>nbformat.read\<close> and \<open>nbformat.reads\<close> are library functions: each is a parameter of
  the model, giving either the message of the exception it raises (\<open>Inl\<close>) or the parsed
  notebook (\<open>Inr\<close>). The parser does not reject a notebook that breaks the notebook
  schema, so reading an attribute of the parsed notebook or of one of its cells can raise:
  \<open>nb.cells\<close> and \<open>cell.cell_type\<close> when the attribute is missing,
  \<open>cell.source.strip()\<close> when it is missing or is not a string. Such a read is \<open>Inl\<close>
  with the message of the exception or \<open>Inr\<close> with the value. \<open>nb_outputs\<close> is \<open>None\<close>
  when \<open>hasattr(cell, 'outputs')\<close> is false.
\<close>

record nb_cell =
  nb_cell_type :: "pystr + pystr"
  nb_source :: "pystr + pystr"
  nb_outputs :: "output list option"

record notebook_node =
  nb_cells :: "pystr + nb_cell list"

text \<open>
  The dictionary built for one cell: the type is read first, then the source; the first
  read that raises ends the evaluation.
\<close>

definition stored_cell :: "nb_cell \<Rightarrow> pystr + cell" where
  "stored_cell c =
     (case nb_cell_type c of
        Inl e \<Rightarrow> Inl e
      | Inr ty \<Rightarrow>
          (case nb_source c of
             Inl e \<Rightarrow> Inl e
           | Inr src \<Rightarrow>
               Inr \<lparr> cell_type = ty,
                     source = strip src,
                     outputs = (case nb_outputs c of Some os \<Rightarrow> os | None \<Rightarrow> []) \<rparr>))"

text \<open>The list comprehension over \<open>nb.cells\<close>: it stops at the first cell that raises.\<close>

fun stored_cells :: "nb_cell list \<Rightarrow> pystr + cell list" where
  "stored_cells [] = Inr []"
| "stored_cells (c # cs) =
     (case stored_cell c of
        Inl e \<Rightarrow> Inl e
      | Inr x \<Rightarrow> (case stored_cells cs of Inl e \<Rightarrow> Inl e | Inr xs \<Rightarrow> Inr (x # xs)))"

definition extracted_cells :: "notebook_node \<Rightarrow> pystr + cell list" where
  "extracted_cells nb = (case nb_cells nb of Inl e \<Rightarrow> Inl e | Inr cs \<Rightarrow> stored_cells cs)"

text \<open>
  Lines 31 to 47. The list is built first and assigned to \<open>notebook_cells\<close> afterwards, so
  an exception anywhere in the \<open>try\<close> block leaves the state as it was.
\<close>

definition load_notebook ::
    "(pystr \<Rightarrow> pystr + notebook_node) \<Rightarrow> pystr \<Rightarrow> server_state \<Rightarrow> pystr \<times> server_state" where
  "load_notebook read path st =
     (case read path of
        Inl e \<Rightarrow> (lit ''Error loading notebook: '' @ e, st)
      | Inr nb \<Rightarrow>
          (case extracted_cells nb of
             Inl e \<Rightarrow> (lit ''Error loading notebook: '' @ e, st)
           | Inr cells \<Rightarrow>
               (let st = st\<lparr>notebook_cells := cells\<rparr>
                in (str_int (len (notebook_cells st)) @ lit '' notebook cell(s) loaded.'', st))))"

text \<open>
  Lines 51 to 67. \<open>notebook_cells.clear()\<close> runs as soon as \<open>nbformat.reads\<close> has
  returned, before the list comprehension is evaluated: an exception in the comprehension
  reaches the \<open>except\<close> branch with the cells already cleared.
\<close>

definition load_notebook_content ::
    "(pystr \<Rightarrow> pystr + notebook_node) \<Rightarrow> pystr \<Rightarrow> server_state \<Rightarrow> pystr \<times> server_state" where
  "load_notebook_content reads json_string st =
     (case reads json_string of
        Inl e \<Rightarrow> (lit ''Failed to parse notebook JSON: '' @ e, st)
      | Inr nb \<Rightarrow>
          (let st = st\<lparr>notebook_cells := []\<rparr> in
           case extracted_cells nb of
             Inl e \<Rightarrow> (lit ''Failed to parse notebook JSON: '' @ e, st)
           | Inr cells \<Rightarrow>
               (let st = st\<lparr>notebook_cells := notebook_cells st @ cells\<rparr>
                in (str_int (len (notebook_cells st))
                      @ lit '' notebook cell(s) loaded from pasted content.'',
                    st))))"


section \<open>Notions used to state the properties\<close>

text \<open>\<open>sub in s\<close>: the string \<open>sub\<close> occurs in \<open>s\<close>.\<close>

fun contains :: "pystr \<Rightarrow> pystr \<Rightarrow> bool" where
  "contains sub [] = (sub = [])"
| "contains sub (c # cs) = (take (length sub) (c # cs) = sub \<or> contains sub cs)"

text \<open>The marker of a truncated code source as a line of its own, without the two newlines.\<close>

definition marker_line :: "int \<Rightarrow> pystr" where
  "marker_line k = lit ''... [CODE TRUNCATED - '' @ str_int k @ lit '' lines omitted] ...''"

text \<open>
  The rendered block of every cell of a list, the first cell having the 0-based index
  \<open>idx\<close>, and the number of characters of these blocks (headers and bodies).
\<close>

fun rendered_blocks :: "int \<Rightarrow> cell list \<Rightarrow> pystr list" where
  "rendered_blocks idx [] = []"
| "rendered_blocks idx (c # cs) =
     (cell_header idx c @ cell_content c) # rendered_blocks (idx + 1) cs"

fun blocks_len :: "int \<Rightarrow> cell list \<Rightarrow> int" where
  "blocks_len idx [] = 0"
| "blocks_len idx (c # cs) =
     len (cell_header idx c) + len (cell_content c) + blocks_len (idx + 1) cs"

text \<open>
  Following the specification: the render of a cell with no truncation rule applied (the
  source as \<open>strip()\<close> leaves it, every output text as it is), and the condition that
  the unit count of a source or of an output is at or below the threshold of its type.
\<close>

fun untruncated_output_part :: "output \<Rightarrow> pystr list" where
  "untruncated_output_part (Stream text) = [fenced ''Output (stream):'' text]"
| "untruncated_output_part (ExecuteResult data) =
     (case map_of data (lit ''text/plain'') of
        Some v \<Rightarrow> [fenced ''Output (result):'' (plain_text v)]
      | None \<Rightarrow>
          (if map_of data (lit ''image/png'') \<noteq> None then [image_placeholder] else []))"
| "untruncated_output_part (Error ename evalue) =
     [fenced ''Output (error):'' (error_text ename evalue)]"
| "untruncated_output_part OtherOutput = []"

definition untruncated_cell_content :: "cell \<Rightarrow> pystr" where
  "untruncated_cell_content c =
     join [NL, NL]
       ((if cell_type c = lit ''code'' \<or> cell_type c = lit ''markdown''
         then [strip (source c)] else [])
        @ (if cell_type c = lit ''code'' \<and> outputs c \<noteq> []
           then concat (map untruncated_output_part (outputs c)) else []))"

definition source_within_threshold :: "pystr \<Rightarrow> pystr \<Rightarrow> bool" where
  "source_within_threshold ty src =
     (if ty = lit ''code'' then len (split_nl src) \<le> MAX_LINES_PER_CODE_CELL
      else if ty = lit ''markdown'' then len src \<le> MAX_CHARS_PER_MD_CELL
      else True)"

fun output_within_threshold :: "output \<Rightarrow> bool" where
  "output_within_threshold (Stream text) = (len text \<le> MAX_OUTPUT_CHARS_STREAM)"
| "output_within_threshold (ExecuteResult data) =
     (case map_of data (lit ''text/plain'') of
        Some v \<Rightarrow> len (plain_text v) \<le> MAX_OUTPUT_CHARS_EXEC_RESULT
      | None \<Rightarrow> True)"
| "output_within_threshold (Error ename evalue) =
     (len (error_text ename evalue) \<le> MAX_ERROR_CHARS)"
| "output_within_threshold OtherOutput = True"

text \<open>
  The line of one guideline, and the lines of a guideline list numbered by position.
\<close>

definition guideline_line :: "int \<Rightarrow> pystr \<Rightarrow> pystr" where
  "guideline_line i g = lit ''Guideline '' @ str_int i @ lit '': '' @ g @ [NL]"

definition numbered_guidelines :: "pystr list \<Rightarrow> pystr list" where
  "numbered_guidelines gs = map (\<lambda>k. guideline_line (1 + int k) (gs ! k)) [0..<length gs]"

text \<open>The analysis instructions without their final newline.\<close>

definition analysis_body :: pystr where
  "analysis_body =
     lit ''--- ANALYSIS INSTRUCTIONS ---\<newline>''
     @ lit ''Please evaluate the notebook content based on the guidelines. For each guideline, state whether it is met or not, and provide specific, constructive feedback and reasoning. Cite specific cell numbers where relevant.\<newline>''
     @ lit ''Example feedback format:\<newline>''
     @ lit ''Guideline X: [Met/Not Met]\<newline>''
     @ lit ''Feedback: [Your specific feedback, referencing relevant cell numbers]\<newline>\<newline>''
     @ lit ''--- END ANALYSIS INSTRUCTIONS ---''"

subsection \<open>Example inputs\<close>

text \<open>A code cell of twenty one-letter lines.\<close>

definition twenty_lines_cell :: cell where
  "twenty_lines_cell =
     \<lparr> cell_type = lit ''code'',
       source = lit ''a\<newline>b\<newline>c\<newline>d\<newline>e\<newline>f\<newline>g\<newline>h\<newline>i\<newline>j\<newline>k\<newline>l\<newline>m\<newline>n\<newline>o\<newline>p\<newline>q\<newline>r\<newline>s\<newline>t'',
       outputs = [] \<rparr>"

text \<open>A state with no guideline, and a state with a guideline and no notebook.\<close>

definition empty_state :: server_state where
  "empty_state = \<lparr> guidelines = [], notebook_cells = [] \<rparr>"

definition guidelines_only_state :: server_state where
  "guidelines_only_state = \<lparr> guidelines = [lit ''Name every variable clearly''], notebook_cells = [] \<rparr>"

text \<open>
  A state with a loaded notebook; a parser that rejects every input; the JSON text of a
  notebook whose only cell has no source, and a parser that accepts it: the parsed cell has
  a type and outputs, and reading its source raises \<open>AttributeError\<close>; the message of
  the exception comes from the library and is taken to be the name of the attribute,
  "source".
\<close>

definition loaded_state :: server_state where
  "loaded_state =
     \<lparr> guidelines = [lit ''Name every variable clearly''],
       notebook_cells = [\<lparr> cell_type = lit ''markdown'', source = lit ''Intro'', outputs = [] \<rparr>] \<rparr>"

definition failing_reads :: "pystr \<Rightarrow> pystr + notebook_node" where
  "failing_reads json_string = Inl (lit ''Notebook does not appear to be JSON'')"





text \<open>A source of sixteen one-letter lines.\<close>

definition sixteen_lines_source :: pystr where
  "sixteen_lines_source = lit ''a\<newline>b\<newline>c\<newline>d\<newline>e\<newline>f\<newline>g\<newline>h\<newline>i\<newline>j\<newline>k\<newline>l\<newline>m\<newline>n\<newline>o\<newline>p''"

text \<open>A short code cell with one output of every kind.\<close>

definition short_cell :: cell where
  "short_cell =
     \<lparr> cell_type = lit ''code'',
       source = lit ''x = 1\<newline>print(x)\<newline>x'',
       outputs = [Stream (lit ''1\<newline>''),
                  ExecuteResult [(lit ''text/plain'', Text (lit ''1''))],
                  Error (lit ''ValueError'') (lit ''bad value''),
                  OtherOutput] \<rparr>"

text \<open>A state with two guidelines and a notebook of one markdown cell.\<close>

definition two_guidelines_state :: server_state where
  "two_guidelines_state =
     \<lparr> guidelines = [lit ''Name every variable clearly'', lit ''Explain each plot''],
       notebook_cells = [\<lparr> cell_type = lit ''markdown'', source = lit ''Intro'', outputs = [] \<rparr>] \<rparr>"

text \<open>
  A code cell whose source is one line of \<open>n\<close> letters a, a short markdown cell and a
  code cell with an empty source.
\<close>

definition long_code_cell :: "nat \<Rightarrow> cell" where
  "long_code_cell n = \<lparr> cell_type = lit ''code'', source = replicate n 97, outputs = [] \<rparr>"

definition intro_cell :: cell where
  "intro_cell = \<lparr> cell_type = lit ''markdown'', source = lit ''Intro'', outputs = [] \<rparr>"

definition empty_code_cell :: cell where
  "empty_code_cell = \<lparr> cell_type = lit ''code'', source = [], outputs = [] \<rparr>"


section \<open>Facts about the string functions\<close>

lemma lit_append: "lit (a @ b) = lit a @ lit b"
  by (simp add: lit_def)

lemma contains_prefix: "contains sub (sub @ rest)"
proof (cases "sub @ rest")
  case Nil
  then show ?thesis by simp
next
  case (Cons a l)
  have "take (length sub) (sub @ rest) = sub" by simp
  then show ?thesis using Cons by (metis contains.simps(2))
qed

lemma contains_append: "contains sub s \<Longrightarrow> contains sub (pre @ s)"
  by (induction pre) simp_all

lemma split_nl_not_Nil [simp]: "split_nl s \<noteq> []"
  by (induction s) (auto split: list.splits)

lemma split_nl_no_NL: "l \<in> set (split_nl s) \<Longrightarrow> NL \<notin> set l"
  by (induction s arbitrary: l) (auto split: list.splits if_splits)

lemma split_nl_line_then: "NL \<notin> set a \<Longrightarrow> split_nl (a @ NL # b) = a # split_nl b"
  by (induction a) (auto split: list.splits)

lemma split_nl_single: "NL \<notin> set a \<Longrightarrow> split_nl a = [a]"
  by (induction a) (auto split: list.splits)

lemma join_split_nl: "join [NL] (split_nl s) = s"
proof (induction s)
  case Nil
  show ?case by simp
next
  case (Cons c s)
  then show ?case
    by (cases "split_nl s"; cases "tl (split_nl s)") (auto split: list.splits)
qed

lemma split_nl_join:
  "ls \<noteq> [] \<Longrightarrow> \<forall>l \<in> set ls. NL \<notin> set l \<Longrightarrow> split_nl (join [NL] ls) = ls"
proof (induction ls)
  case Nil
  then show ?case by simp
next
  case (Cons x ls)
  show ?case
  proof (cases ls)
    case Nil
    with Cons.prems show ?thesis by (simp add: split_nl_single)
  next
    case tail: (Cons y ys)
    with Cons.IH Cons.prems have "split_nl (join [NL] ls) = ls" by simp
    with tail Cons.prems show ?thesis by (simp add: split_nl_line_then)
  qed
qed

lemma join_Cons: "ys \<noteq> [] \<Longrightarrow> join sep (x # ys) = x @ sep @ join sep ys"
  by (cases ys) simp_all

lemma join_append:
  "xs \<noteq> [] \<Longrightarrow> ys \<noteq> [] \<Longrightarrow> join sep (xs @ ys) = join sep xs @ sep @ join sep ys"
proof (induction sep xs rule: join.induct)
  case (1 sep)
  then show ?case by simp
next
  case (2 sep x)
  then show ?case by (cases ys) auto
next
  case (3 sep x y ys')
  then show ?case by simp
qed

lemma length_split_nl: "length (split_nl s) = Suc (length (filter (\<lambda>c. c = NL) s))"
  by (induction s) (auto split: list.splits)

lemma str_nat_digits: "c \<in> set (str_nat n) \<Longrightarrow> 48 \<le> c \<and> c \<le> 57"
proof (induction n arbitrary: c rule: str_nat.induct)
  case (1 n)
  show ?case
  proof (cases "n < 10")
    case True
    with "1.prems" show ?thesis by (simp add: str_nat.simps [of n])
  next
    case False
    with "1.prems" have "c \<in> set (str_nat (n div 10)) \<or> c = 48 + n mod 10"
      by (auto simp add: str_nat.simps [of n])
    then show ?thesis
    proof
      assume "c \<in> set (str_nat (n div 10))"
      with False "1.IH" show ?thesis by simp
    next
      assume "c = 48 + n mod 10"
      moreover have "n mod 10 < 10" by simp
      ultimately show ?thesis by linarith
    qed
  qed
qed

lemma str_int_no_NL: "0 \<le> i \<Longrightarrow> NL \<notin> set (str_int i)"
  using str_nat_digits [of NL "nat i"] by (auto simp: str_int_def NL_def)


section \<open>Facts about the truncation of one source or output\<close>

lemma stream_marker_len: "length stream_marker = 52"
  by (simp add: stream_marker_def lit_def)

lemma exec_marker_len: "length exec_marker = 50"
  by (simp add: exec_marker_def lit_def)

lemma error_marker_len: "length error_marker = 26"
  by (simp add: error_marker_def lit_def)

lemma code_marker_eq: "code_marker k = NL # marker_line k @ [NL]"
  by (simp add: code_marker_def marker_line_def lit_def NL_def)

lemma marker_line_no_NL: "0 \<le> k \<Longrightarrow> NL \<notin> set (marker_line k)"
  using str_int_no_NL [of k] by (simp add: marker_line_def lit_def) (simp add: NL_def)

lemma trimmed_stream_long:
  "len s > 100 \<Longrightarrow> trimmed_stream s = take 50 s @ stream_marker"
  by (simp add: trimmed_stream_def MAX_OUTPUT_CHARS_STREAM_def stream_marker_len Let_def
      slice_to_def slice_from_def)

lemma trimmed_exec_result_long:
  assumes "len s > 150"
  shows "trimmed_exec_result s = take 75 s @ exec_marker @ drop (length s - 25) s"
proof -
  have "nat (len s - 25) = length s - 25" by simp
  with assms show ?thesis
    by (simp add: trimmed_exec_result_def MAX_OUTPUT_CHARS_EXEC_RESULT_def exec_marker_len
        Let_def slice_to_def slice_from_def)
qed

lemma trimmed_error_long:
  "len s > 100 \<Longrightarrow> trimmed_error s = take 100 s @ error_marker"
  by (simp add: trimmed_error_def MAX_ERROR_CHARS_def slice_to_def)

lemma trimmed_code_source_long:
  assumes "len (split_nl src) > MAX_LINES_PER_CODE_CELL"
  shows "trimmed_code_source src =
           join [NL] (take 7 (split_nl src))
           @ code_marker (len (split_nl src) - 15)
           @ join [NL] (drop (length (split_nl src) - 8) (split_nl src))"
proof -
  have "nat (len (split_nl src) + - 8) = length (split_nl src) - 8" by simp
  with assms show ?thesis
    by (simp add: trimmed_code_source_def MAX_LINES_PER_CODE_CELL_def Let_def
        slice_to_def slice_from_def)
qed

lemma split_trimmed_code_source:
  assumes "len (split_nl src) > MAX_LINES_PER_CODE_CELL"
  shows "split_nl (trimmed_code_source src) =
           take 7 (split_nl src) @ [marker_line (len (split_nl src) - 15)]
           @ drop (length (split_nl src) - 8) (split_nl src)"
proof -
  let ?ls = "split_nl src"
  let ?H = "take 7 ?ls" and ?T = "drop (length ?ls - 8) ?ls"
  let ?m = "marker_line (len ?ls - 15)"
  from assms have n: "15 < length ?ls" by (simp add: MAX_LINES_PER_CODE_CELL_def)
  then have H: "?H \<noteq> []" and T: "?T \<noteq> []" by auto
  have "trimmed_code_source src = join [NL] ?H @ [NL] @ ?m @ [NL] @ join [NL] ?T"
    using assms by (simp add: trimmed_code_source_long code_marker_eq)
  also have "\<dots> = join [NL] (?H @ [?m] @ ?T)"
    using H T by (simp add: join_append join_Cons)
  finally have eq: "trimmed_code_source src = join [NL] (?H @ [?m] @ ?T)" .
  have "\<forall>l \<in> set (?H @ [?m] @ ?T). NL \<notin> set l"
    using n marker_line_no_NL [of "len ?ls - 15"]
    by (auto dest: in_set_takeD in_set_dropD split_nl_no_NL)
  then show ?thesis unfolding eq by (intro split_nl_join) simp_all
qed

lemma twenty_lines_cell_lines:
  "split_nl (strip (source twenty_lines_cell)) =
     map lit [''a'', ''b'', ''c'', ''d'', ''e'', ''f'', ''g'', ''h'', ''i'', ''j'',
              ''k'', ''l'', ''m'', ''n'', ''o'', ''p'', ''q'', ''r'', ''s'', ''t'']"
  by (simp add: twenty_lines_cell_def strip_def lit_def isspace_def NL_def)

lemma sixteen_lines: "split_nl sixteen_lines_source =
   map lit [''a'', ''b'', ''c'', ''d'', ''e'', ''f'', ''g'', ''h'', ''i'', ''j'',
              ''k'', ''l'', ''m'', ''n'', ''o'', ''p'']"
  by (simp add: sixteen_lines_source_def lit_def NL_def)


section \<open>Facts about sources and outputs within their thresholds\<close>

lemma filter_dropWhile_le: "length (filter Q (dropWhile P xs)) \<le> length (filter Q xs)"
proof -
  have "length (filter Q xs) = length (filter Q (takeWhile P xs @ dropWhile P xs))" by simp
  also have "\<dots> = length (filter Q (takeWhile P xs)) + length (filter Q (dropWhile P xs))"
    by (simp only: filter_append length_append)
  finally show ?thesis by simp
qed

lemma length_filter_rev: "length (filter Q (rev xs)) = length (filter Q xs)"
  by (simp add: rev_filter [symmetric])

lemma filter_strip_le: "length (filter Q (strip s)) \<le> length (filter Q s)"
proof -
  have "length (filter Q (strip s)) = length (filter Q (dropWhile isspace (rev (dropWhile isspace s))))"
    by (simp add: strip_def length_filter_rev)
  also have "\<dots> \<le> length (filter Q (rev (dropWhile isspace s)))"
    by (rule filter_dropWhile_le)
  also have "\<dots> = length (filter Q (dropWhile isspace s))"
    by (rule length_filter_rev)
  also have "\<dots> \<le> length (filter Q s)"
    by (rule filter_dropWhile_le)
  finally show ?thesis .
qed

lemma length_strip_le: "length (strip s) \<le> length s"
  using filter_strip_le [of "\<lambda>_. True" s] by simp

lemma lines_strip_le: "length (split_nl (strip s)) \<le> length (split_nl s)"
  by (simp add: length_split_nl filter_strip_le)

lemma source_within_threshold_strip:
  "source_within_threshold ty src \<Longrightarrow> source_within_threshold ty (strip src)"
  using lines_strip_le [of src] length_strip_le [of src]
  by (auto simp: source_within_threshold_def)

lemma cell_parts_within:
  assumes "source_within_threshold (cell_type c) (strip (source c))"
  shows "cell_parts c =
           (if cell_type c = lit ''code'' \<or> cell_type c = lit ''markdown''
            then [strip (source c)] else [])"
  using assms
  by (auto simp: source_within_threshold_def cell_parts_def trimmed_code_source_def
      trimmed_md_source_def Let_def)

lemma output_part_within:
  "output_within_threshold out \<Longrightarrow> output_part out = untruncated_output_part out"
  by (cases out)
    (auto simp: trimmed_stream_def trimmed_exec_result_def trimmed_error_def split: option.splits)

lemma output_text_parts_within:
  assumes "list_all output_within_threshold (outputs c)"
  shows "output_text_parts c =
           (if cell_type c = lit ''code'' \<and> outputs c \<noteq> []
            then concat (map untruncated_output_part (outputs c)) else [])"
proof -
  from assms have m: "map output_part (outputs c) = map untruncated_output_part (outputs c)"
    by (simp add: list_all_iff output_part_within)
  show ?thesis unfolding output_text_parts_def m by (rule refl)
qed


section \<open>Facts about the prompt composer\<close>

lemma guidelines_loop_eq:
  "guidelines_loop i gs prompt =
     prompt @ concat (map (\<lambda>k. guideline_line (i + int k) (gs ! k)) [0..<length gs])"
proof (induction gs arbitrary: i prompt)
  case Nil
  show ?case by simp
next
  case (Cons g gs)
  have "map (\<lambda>k. guideline_line (i + int k) ((g # gs) ! k)) [0..<length (g # gs)] =
        guideline_line i g # map (\<lambda>k. guideline_line (i + 1 + int k) (gs ! k)) [0..<length gs]"
    by (simp add: map_upt_Suc add.assoc del: upt_Suc)
  then show ?case
    by (simp add: Cons.IH guideline_line_def del: upt_Suc)
qed

lemma strip_keeps_core:
  assumes "p \<noteq> []" and "\<not> isspace (hd p)" and "q \<noteq> []" and "\<not> isspace (last q)"
    and "isspace c"
  shows "strip (p @ m @ q @ [c]) = p @ m @ q"
proof -
  have front: "dropWhile isspace (p @ m @ q @ [c]) = p @ m @ q @ [c]"
    using assms(1,2) by (cases p) simp_all
  have "rev (p @ m @ q @ [c]) = c # rev q @ rev m @ rev p" by simp
  moreover have "dropWhile isspace (rev q @ rev m @ rev p) = rev q @ rev m @ rev p"
    using assms(3,4) by (cases q rule: rev_cases) simp_all
  ultimately have "dropWhile isspace (rev (p @ m @ q @ [c])) = rev (p @ m @ q)"
    using assms(5) by simp
  then show ?thesis by (simp add: strip_def front)
qed

lemma prompt_preamble_hd: "prompt_preamble \<noteq> [] \<and> \<not> isspace (hd prompt_preamble)"
proof -
  have "lit ''Below is the content of a Jupyter notebook. Please review this notebook based on the specific guidelines provided afterwards.\<newline>''
        = 66 # tl (lit ''Below is the content of a Jupyter notebook. Please review this notebook based on the specific guidelines provided afterwards.\<newline>'')"
    by (simp add: lit_def)
  then have "hd prompt_preamble = 66 \<and> prompt_preamble \<noteq> []"
    unfolding prompt_preamble_def by (metis append_Cons list.sel(1) list.distinct(1))
  then show ?thesis by (simp add: isspace_def)
qed

lemma analysis_instructions_snoc: "analysis_instructions = analysis_body @ [NL]"
proof -
  have "lit ''--- END ANALYSIS INSTRUCTIONS ---\<newline>'' =
        lit ''--- END ANALYSIS INSTRUCTIONS ---'' @ [NL]"
    by (simp add: lit_def NL_def)
  then show ?thesis by (simp add: analysis_instructions_def analysis_body_def)
qed

lemma analysis_body_last: "analysis_body \<noteq> [] \<and> \<not> isspace (last analysis_body)"
proof -
  have "lit ''--- END ANALYSIS INSTRUCTIONS ---'' \<noteq> []
        \<and> last (lit ''--- END ANALYSIS INSTRUCTIONS ---'') = 45"
    by (simp add: lit_def)
  then have "analysis_body \<noteq> [] \<and> last analysis_body = 45"
    by (simp add: analysis_body_def)
  then show ?thesis by (simp add: isspace_def)
qed

lemma build_prompt_eq:
  "build_prompt gs cells =
     prompt_preamble @ final_notebook_content_str cells
     @ lit ''\<newline>--- END NOTEBOOK CONTENT ---\<newline>\<newline>''
     @ lit ''--- REVIEW GUIDELINES ---\<newline>''
     @ concat (numbered_guidelines gs)
     @ lit ''--- END REVIEW GUIDELINES ---\<newline>\<newline>''
     @ analysis_body"
proof -
  let ?mid = "final_notebook_content_str cells
     @ lit ''\<newline>--- END NOTEBOOK CONTENT ---\<newline>\<newline>''
     @ lit ''--- REVIEW GUIDELINES ---\<newline>''
     @ concat (numbered_guidelines gs)
     @ lit ''--- END REVIEW GUIDELINES ---\<newline>\<newline>''"
  have "build_prompt gs cells = strip (prompt_preamble @ ?mid @ analysis_body @ [NL])"
    by (simp add: build_prompt_def Let_def guidelines_loop_eq numbered_guidelines_def
        analysis_instructions_snoc)
  also have "\<dots> = prompt_preamble @ ?mid @ analysis_body"
    using prompt_preamble_hd analysis_body_last
    by (intro strip_keeps_core) (simp_all add: isspace_def NL_def)
  finally show ?thesis by simp
qed


section \<open>Facts about the assembling loop\<close>

lemma blocks_len_nonneg: "0 \<le> blocks_len idx cs"
  by (induction cs arbitrary: idx) auto

lemma length_rendered_blocks [simp]: "length (rendered_blocks idx cs) = length cs"
  by (induction cs arbitrary: idx) auto

lemma rendered_blocks_nth:
  "k < length cs \<Longrightarrow>
   rendered_blocks idx cs ! k = cell_header (idx + int k) (cs ! k) @ cell_content (cs ! k)"
proof (induction cs arbitrary: idx k)
  case Nil
  then show ?case by simp
next
  case (Cons c cs)
  show ?case
  proof (cases k)
    case 0
    then show ?thesis by simp
  next
    case (Suc j)
    with Cons.prems have "j < length cs" by simp
    from Cons.IH [OF this, of "idx + 1"] Suc show ?thesis by (simp add: add.assoc)
  qed
qed

lemma cells_loop_prefix:
  "current_total + blocks_len idx pre \<le> MAX_TOTAL_NOTEBOOK_CHARS \<Longrightarrow>
   cells_loop idx current_total (pre @ rest) trimmed =
     cells_loop (idx + len pre) (current_total + blocks_len idx pre) rest
       (trimmed @ rendered_blocks idx pre)"
proof (induction pre arbitrary: idx current_total trimmed)
  case Nil
  show ?case by simp
next
  case (Cons c pre)
  let ?b = "len (cell_header idx c) + len (cell_content c)"
  have nonneg: "0 \<le> blocks_len (idx + 1) pre" by (rule blocks_len_nonneg)
  with Cons.prems have fits: "\<not> current_total + len (cell_header idx c) + len (cell_content c)
      > MAX_TOTAL_NOTEBOOK_CHARS"
    by simp
  from Cons.prems have "(current_total + ?b) + blocks_len (idx + 1) pre \<le> MAX_TOTAL_NOTEBOOK_CHARS"
    by simp
  from Cons.IH [OF this, of "trimmed @ [cell_header idx c @ cell_content c]"] fits
  show ?case by (simp add: add.assoc add.commute add.left_commute)
qed

lemma strip_replicate_a: "strip (replicate n 97) = replicate n 97"
  by (simp add: strip_def isspace_def)

lemma cell_content_long_code_cell: "cell_content (long_code_cell n) = replicate n 97"
proof -
  have "NL \<notin> set (replicate n (97::nat))" by (simp add: NL_def)
  then have "split_nl (replicate n 97) = [replicate n 97]" by (rule split_nl_single)
  then show ?thesis
    by (simp add: cell_content_def cell_parts_def output_text_parts_def long_code_cell_def
        strip_replicate_a trimmed_code_source_def MAX_LINES_PER_CODE_CELL_def)
qed

lemma str_int_digits: "str_int 1 = lit ''1''" "str_int 2 = lit ''2''" "str_int 3 = lit ''3''"
  by (simp_all add: str_int_def str_nat.simps lit_def)

lemma cell_header_code:
  "cell_type c = lit ''code'' \<Longrightarrow> cell_header idx c = lit ''# Cell '' @ str_int (idx + 1) @ lit '' - Code\<newline>''"
  by (simp add: cell_header_def) (simp add: lit_def upper_char_def lower_char_def NL_def)

lemma cell_header_markdown:
  "cell_type c = lit ''markdown'' \<Longrightarrow>
   cell_header idx c = lit ''# Cell '' @ str_int (idx + 1) @ lit '' - Markdown\<newline>''"
  by (simp add: cell_header_def) (simp add: lit_def upper_char_def lower_char_def NL_def)

lemma cell_content_intro_cell: "cell_content intro_cell = lit ''Intro''"
proof -
  have "strip (lit ''Intro'') = lit ''Intro''"
    by (simp add: strip_def lit_def isspace_def)
  then show ?thesis
    by (simp add: cell_content_def cell_parts_def output_text_parts_def intro_cell_def)
      (simp add: lit_def trimmed_md_source_def MAX_CHARS_PER_MD_CELL_def)
qed


text \<open>
  What the running total bounds: the blocks without the separators. With \<open>n\<close> blocks
  emitted, the assembled string has \<open>2 * (n - 1)\<close> characters more, the newlines that
  \<open>join\<close> inserts and the loop never counts.
\<close>

lemma blocks_len_append:
  "blocks_len idx (a @ b) = blocks_len idx a + blocks_len (idx + len a) b"
  by (induction a arbitrary: idx) (auto simp: add.assoc add.commute add.left_commute)

lemma sum_rendered_blocks:
  "(\<Sum>b\<leftarrow>rendered_blocks idx cs. len b) = blocks_len idx cs"
  by (induction cs arbitrary: idx) auto

lemma len_join:
  "bs \<noteq> [] \<Longrightarrow> len (join sep bs) = (\<Sum>b\<leftarrow>bs. len b) + len sep * (len bs - 1)"
proof (induction sep bs rule: join.induct)
  case (1 sep)
  then show ?case by simp
next
  case (2 sep x)
  then show ?case by simp
next
  case (3 sep x y ys)
  then show ?case by (simp add: algebra_simps)
qed

lemma cells_split:
  "blocks_len 0 cells \<le> MAX_TOTAL_NOTEBOOK_CHARS
   \<or> (\<exists>pre c post. cells = pre @ c # post
        \<and> blocks_len 0 pre \<le> MAX_TOTAL_NOTEBOOK_CHARS
        \<and> blocks_len 0 pre + len (cell_header (len pre) c) + len (cell_content c)
            > MAX_TOTAL_NOTEBOOK_CHARS)"
proof (induction cells rule: rev_induct)
  case Nil
  show ?case by (simp add: MAX_TOTAL_NOTEBOOK_CHARS_def)
next
  case (snoc x cells)
  from snoc.IH show ?case
  proof
    assume fit: "blocks_len 0 cells \<le> MAX_TOTAL_NOTEBOOK_CHARS"
    show ?thesis
    proof (cases "blocks_len 0 (cells @ [x]) \<le> MAX_TOTAL_NOTEBOOK_CHARS")
      case True
      then show ?thesis by simp
    next
      case False
      then have "blocks_len 0 cells + len (cell_header (len cells) x) + len (cell_content x)
          > MAX_TOTAL_NOTEBOOK_CHARS"
        by (simp add: blocks_len_append)
      with fit have "\<exists>pre c post. cells @ [x] = pre @ c # post
        \<and> blocks_len 0 pre \<le> MAX_TOTAL_NOTEBOOK_CHARS
        \<and> blocks_len 0 pre + len (cell_header (len pre) c) + len (cell_content c)
            > MAX_TOTAL_NOTEBOOK_CHARS"
        by (intro exI [of _ cells] exI [of _ x] exI [of _ "[]"]) simp
      then show ?thesis by blast
    qed
  next
    assume "\<exists>pre c post. cells = pre @ c # post
        \<and> blocks_len 0 pre \<le> MAX_TOTAL_NOTEBOOK_CHARS
        \<and> blocks_len 0 pre + len (cell_header (len pre) c) + len (cell_content c)
            > MAX_TOTAL_NOTEBOOK_CHARS"
    then obtain pre c post where "cells = pre @ c # post"
        and "blocks_len 0 pre \<le> MAX_TOTAL_NOTEBOOK_CHARS"
        and "blocks_len 0 pre + len (cell_header (len pre) c) + len (cell_content c)
            > MAX_TOTAL_NOTEBOOK_CHARS"
      by blast
    then have "cells @ [x] = pre @ c # (post @ [x])
        \<and> blocks_len 0 pre \<le> MAX_TOTAL_NOTEBOOK_CHARS
        \<and> blocks_len 0 pre + len (cell_header (len pre) c) + len (cell_content c)
            > MAX_TOTAL_NOTEBOOK_CHARS"
      by simp
    then show ?thesis by blast
  qed
qed

lemma trimmed_cells_content_fit:
  assumes "blocks_len 0 cells \<le> MAX_TOTAL_NOTEBOOK_CHARS"
  shows "trimmed_cells_content cells = rendered_blocks 0 cells"
  using cells_loop_prefix [of 0 0 cells "[]" "[]"] assms
  by (simp add: trimmed_cells_content_def)

lemma trimmed_cells_content_overflow:
  assumes "blocks_len 0 pre \<le> MAX_TOTAL_NOTEBOOK_CHARS"
    and "blocks_len 0 pre + len (cell_header (len pre) c) + len (cell_content c)
           > MAX_TOTAL_NOTEBOOK_CHARS"
  shows "trimmed_cells_content (pre @ c # post) =
           rendered_blocks 0 pre @ [cell_header (len pre) c @ skip_marker]"
proof -
  have "trimmed_cells_content (pre @ c # post) =
          cells_loop (len pre) (blocks_len 0 pre) (c # post) (rendered_blocks 0 pre)"
    using cells_loop_prefix [of 0 0 pre "c # post" "[]"] assms(1)
    by (simp add: trimmed_cells_content_def)
  also have "\<dots> = rendered_blocks 0 pre @ [cell_header (len pre) c @ skip_marker]"
    using assms(2) by simp
  finally show ?thesis .
qed

lemma notebook_content_length_bound:
  assumes "cells \<noteq> []"
  shows "(blocks_len 0 cells \<le> MAX_TOTAL_NOTEBOOK_CHARS
          \<and> len (final_notebook_content_str cells)
              \<le> MAX_TOTAL_NOTEBOOK_CHARS + 2 * (len cells - 1))
       \<or> (\<exists>pre c post. cells = pre @ c # post
            \<and> len (final_notebook_content_str cells)
                \<le> MAX_TOTAL_NOTEBOOK_CHARS + len (cell_header (len pre) c) + len skip_marker
                    + 2 * len pre)"
  using cells_split [of cells]
proof
  assume fit: "blocks_len 0 cells \<le> MAX_TOTAL_NOTEBOOK_CHARS"
  from assms have "rendered_blocks 0 cells \<noteq> []" by (cases cells) simp_all
  then have "len (final_notebook_content_str cells) =
      blocks_len 0 cells + 2 * (len cells - 1)"
    by (simp add: final_notebook_content_str_def trimmed_cells_content_fit [OF fit]
        len_join sum_rendered_blocks)
  with fit show ?thesis by simp
next
  assume "\<exists>pre c post. cells = pre @ c # post
        \<and> blocks_len 0 pre \<le> MAX_TOTAL_NOTEBOOK_CHARS
        \<and> blocks_len 0 pre + len (cell_header (len pre) c) + len (cell_content c)
            > MAX_TOTAL_NOTEBOOK_CHARS"
  then obtain pre c post where cells: "cells = pre @ c # post"
      and fit: "blocks_len 0 pre \<le> MAX_TOTAL_NOTEBOOK_CHARS"
      and over: "blocks_len 0 pre + len (cell_header (len pre) c) + len (cell_content c)
            > MAX_TOTAL_NOTEBOOK_CHARS"
    by blast
  have "len (final_notebook_content_str cells) =
      blocks_len 0 pre + len (cell_header (len pre) c) + len skip_marker + 2 * len pre"
    by (simp add: cells final_notebook_content_str_def
        trimmed_cells_content_overflow [OF fit over] len_join sum_rendered_blocks)
  with fit have "cells = pre @ c # post
      \<and> len (final_notebook_content_str cells)
          \<le> MAX_TOTAL_NOTEBOOK_CHARS + len (cell_header (len pre) c) + len skip_marker
              + 2 * len pre"
    using cells by linarith
  then show ?thesis by blast
qed


section \<open>Facts about the two load operations\<close>

lemma load_notebook_content_reads_fails:
  "reads json_string = Inl e \<Longrightarrow>
   load_notebook_content reads json_string st =
     (lit ''Failed to parse notebook JSON: '' @ e, st)"
  by (simp add: load_notebook_content_def)

lemma load_notebook_content_extraction_fails:
  "reads json_string = Inr nb \<Longrightarrow> extracted_cells nb = Inl e \<Longrightarrow>
   load_notebook_content reads json_string st =
     (lit ''Failed to parse notebook JSON: '' @ e, st\<lparr>notebook_cells := []\<rparr>)"
  by (simp add: load_notebook_content_def)

lemma load_notebook_failure_keeps_state:
  "read path = Inl e \<or> (\<exists>nb. read path = Inr nb \<and> extracted_cells nb = Inl e) \<Longrightarrow>
   load_notebook read path st = (lit ''Error loading notebook: '' @ e, st)"
  by (auto simp: load_notebook_def)

lemma load_notebook_content_reads_fails_example:
  "load_notebook_content failing_reads (lit ''{not a notebook'') loaded_state =
     (lit ''Failed to parse notebook JSON: Notebook does not appear to be JSON'', loaded_state)"
  by (simp add: load_notebook_content_reads_fails failing_reads_def lit_def)


section \<open>The claims\<close>

text \<open>
  C1. Let a cell \<open>c\<close> come after the cells \<open>pre\<close>, all of which fit in the budget of
  150000 characters, and let the header and body of \<open>c\<close> push the running total over
  the budget. Then the assembler emits the rendered blocks of \<open>pre\<close>, each one the header
  and body of its cell, in the order of the cells, then the header of \<open>c\<close> followed by
  the marker "[Remaining cell content and subsequent cells skipped due to overall notebook
  content length limit.]", and nothing else: the result does not depend on the cells
  \<open>post\<close> that follow, whether they would fit or not.
\<close>

theorem overflow_cell_replaced:
  assumes "blocks_len 0 pre \<le> MAX_TOTAL_NOTEBOOK_CHARS"
    and "blocks_len 0 pre + len (cell_header (len pre) c) + len (cell_content c)
           > MAX_TOTAL_NOTEBOOK_CHARS"
  shows "trimmed_cells_content (pre @ c # post) =
           rendered_blocks 0 pre @ [cell_header (len pre) c @ skip_marker]
         \<and> final_notebook_content_str (pre @ c # post) =
             join [NL, NL] (rendered_blocks 0 pre @ [cell_header (len pre) c @ skip_marker])
         \<and> (\<forall>k < length pre.
              rendered_blocks 0 pre ! k = cell_header (int k) (pre ! k) @ cell_content (pre ! k))
         \<and> skip_marker =
             lit ''[Remaining cell content and subsequent cells skipped due to overall notebook content length limit.]''"
proof -
  have "trimmed_cells_content (pre @ c # post) =
          cells_loop (len pre) (blocks_len 0 pre) (c # post) (rendered_blocks 0 pre)"
    using cells_loop_prefix [of 0 0 pre "c # post" "[]"] assms(1)
    by (simp add: trimmed_cells_content_def)
  also have "\<dots> = rendered_blocks 0 pre @ [cell_header (len pre) c @ skip_marker]"
    using assms(2) by simp
  finally have t: "trimmed_cells_content (pre @ c # post) =
      rendered_blocks 0 pre @ [cell_header (len pre) c @ skip_marker]" .
  then show ?thesis
    by (simp add: final_notebook_content_str_def rendered_blocks_nth skip_marker_def)
qed

theorem overflow_cell_replaced_witness:
  "blocks_len 0 [intro_cell] \<le> MAX_TOTAL_NOTEBOOK_CHARS
   \<and> blocks_len 0 [intro_cell] + len (cell_header (len [intro_cell]) (long_code_cell 150000))
       + len (cell_content (long_code_cell 150000)) > MAX_TOTAL_NOTEBOOK_CHARS
   \<and> final_notebook_content_str ([intro_cell] @ long_code_cell 150000 # [intro_cell]) =
       lit ''# Cell 1 - Markdown\<newline>Intro''
       @ [NL, NL]
       @ lit ''# Cell 2 - Code\<newline>[Remaining cell content and subsequent cells skipped due to overall notebook content length limit.]''"
proof -
  have hi: "cell_header 0 intro_cell = lit ''# Cell 1 - Markdown\<newline>''"
    by (simp add: cell_header_markdown intro_cell_def str_int_digits) (simp add: lit_def)
  have hc: "cell_header 1 (long_code_cell 150000) = lit ''# Cell 2 - Code\<newline>''"
    by (simp add: cell_header_code long_code_cell_def str_int_digits) (simp add: lit_def)
  have fit: "blocks_len 0 [intro_cell] \<le> MAX_TOTAL_NOTEBOOK_CHARS"
    by (simp add: hi cell_content_intro_cell MAX_TOTAL_NOTEBOOK_CHARS_def) (simp add: lit_def)
  have over: "blocks_len 0 [intro_cell] + len (cell_header (len [intro_cell]) (long_code_cell 150000))
       + len (cell_content (long_code_cell 150000)) > MAX_TOTAL_NOTEBOOK_CHARS"
    by (simp add: hi hc cell_content_intro_cell cell_content_long_code_cell
        MAX_TOTAL_NOTEBOOK_CHARS_def lit_def)
  have "final_notebook_content_str ([intro_cell] @ long_code_cell 150000 # [intro_cell]) =
      join [NL, NL] (rendered_blocks 0 [intro_cell]
        @ [cell_header (len [intro_cell]) (long_code_cell 150000) @ skip_marker])"
    using overflow_cell_replaced [OF fit over, of "[intro_cell]"] by blast
  also have "\<dots> = lit ''# Cell 1 - Markdown\<newline>Intro''
       @ [NL, NL]
       @ lit ''# Cell 2 - Code\<newline>[Remaining cell content and subsequent cells skipped due to overall notebook content length limit.]''"
    by (simp add: hi hc cell_content_intro_cell skip_marker_def) (simp add: lit_def)
  finally show ?thesis using fit over by blast
qed

text \<open>
  C2, evaluated where it fails. The claim bounds the length of the assembled notebook
  content by the budget plus one header plus the skip marker. The running total counts
  headers and bodies and leaves out the two newlines that \<open>join\<close> puts between the
  blocks. For a code cell of one line of 149984 letters followed by an empty code cell,
  the first block fills the budget exactly, the second cell is replaced by its header and
  the marker, and the assembled content has two characters more than the bound.
\<close>

theorem separators_not_counted:
  "final_notebook_content_str [long_code_cell 149984, empty_code_cell] =
     (lit ''# Cell 1 - Code\<newline>'' @ replicate 149984 97)
     @ [NL, NL]
     @ (cell_header 1 empty_code_cell @ skip_marker)
   \<and> len (lit ''# Cell 1 - Code\<newline>'' @ replicate 149984 97) = MAX_TOTAL_NOTEBOOK_CHARS
   \<and> len (final_notebook_content_str [long_code_cell 149984, empty_code_cell]) =
       MAX_TOTAL_NOTEBOOK_CHARS + len (cell_header 1 empty_code_cell) + len skip_marker + 2
   \<and> len (final_notebook_content_str [long_code_cell 149984, empty_code_cell]) >
       MAX_TOTAL_NOTEBOOK_CHARS + len (cell_header 1 empty_code_cell) + len skip_marker"
proof -
  have h1: "cell_header 0 (long_code_cell 149984) = lit ''# Cell 1 - Code\<newline>''"
    by (simp add: cell_header_code long_code_cell_def str_int_digits) (simp add: lit_def)
  have l1: "length (lit ''# Cell 1 - Code\<newline>'') = 16" by (simp add: lit_def)
  have h2: "length (cell_header 1 empty_code_cell) = 16"
    by (simp add: cell_header_code empty_code_cell_def str_int_digits) (simp add: lit_def)
  have eq: "final_notebook_content_str [long_code_cell 149984, empty_code_cell] =
     (lit ''# Cell 1 - Code\<newline>'' @ replicate 149984 97)
     @ [NL, NL]
     @ (cell_header 1 empty_code_cell @ skip_marker)"
    by (simp add: final_notebook_content_str_def trimmed_cells_content_def h1 l1 h2
        cell_content_long_code_cell MAX_TOTAL_NOTEBOOK_CHARS_def)
  show ?thesis unfolding eq by (simp add: l1 h2 MAX_TOTAL_NOTEBOOK_CHARS_def)
qed

text \<open>
  C3, as the code has it. A stream output whose text has 250 characters is rendered, at the
  threshold 100, as its first 50 characters followed by the marker, which has 52
  characters and contains STREAM OUTPUT TRUNCATED; no tail follows, because the tail
  length 100 - 50 - 52 is negative and is raised to 0. The rendered text has 102
  characters, not 100.
\<close>

theorem stream_250_chars:
  assumes "length text = 250"
  shows "trimmed_stream text = take 50 text @ stream_marker
         \<and> length (take 50 text) = 50
         \<and> length stream_marker = 52
         \<and> contains (lit ''STREAM OUTPUT TRUNCATED'') stream_marker
         \<and> length (trimmed_stream text) = 102"
proof -
  have eq: "stream_marker =
          lit ''\<newline>... ['' @ (lit ''STREAM OUTPUT TRUNCATED'' @ lit '' - middle omitted] ...\<newline>'')"
    by (simp add: stream_marker_def lit_def)
  have "contains (lit ''STREAM OUTPUT TRUNCATED'') stream_marker"
    unfolding eq by (rule contains_append [OF contains_prefix])
  with assms show ?thesis
    by (simp add: trimmed_stream_long stream_marker_len)
qed

theorem stream_250_chars_witness:
  "length (replicate 250 (120::nat)) = 250
   \<and> trimmed_stream (replicate 250 120) = replicate 50 120 @ stream_marker
   \<and> length (trimmed_stream (replicate 250 120)) = 102"
  using stream_250_chars [of "replicate 250 120"] by simp

text \<open>
  C3 as it is written fails: for the text of 250 letters x the rendered text does not have
  100 characters.
\<close>

theorem stream_250_chars_not_100:
  "length (replicate 250 (120::nat)) = 250
   \<and> length (trimmed_stream (replicate 250 120)) \<noteq> 100"
  by (simp add: trimmed_stream_long stream_marker_len)

text \<open>
  C4, as the code has it. When the unit count exceeds the threshold:
  the lines of a truncated code source are the first 7 lines, the marker line, which states
  the number of lines minus 15, and the last 8 lines, so 15 lines besides the marker;
  an error text keeps its first 100 characters before the marker;
  the plain text of an execute_result keeps its first 75 and its last 25 characters, that
  is 150 less the 50 characters of the marker, and has 150 characters with the marker;
  the text of a stream output keeps its first 50 characters and no tail, and has 102
  characters with the marker.
\<close>

theorem truncated_unit_counts:
  "(len (split_nl src) > MAX_LINES_PER_CODE_CELL \<longrightarrow>
      split_nl (trimmed_code_source src) =
        take 7 (split_nl src)
        @ [marker_line (len (split_nl src) - MAX_LINES_PER_CODE_CELL)]
        @ drop (length (split_nl src) - 8) (split_nl src)
      \<and> len (take 7 (split_nl src)) + len (drop (length (split_nl src) - 8) (split_nl src))
          = MAX_LINES_PER_CODE_CELL)
   \<and> (len e > MAX_ERROR_CHARS \<longrightarrow>
      trimmed_error e = take 100 e @ error_marker
      \<and> len (take 100 e) = MAX_ERROR_CHARS)
   \<and> (len r > MAX_OUTPUT_CHARS_EXEC_RESULT \<longrightarrow>
      trimmed_exec_result r = take 75 r @ exec_marker @ drop (length r - 25) r
      \<and> len (take 75 r) + len (drop (length r - 25) r)
          = MAX_OUTPUT_CHARS_EXEC_RESULT - len exec_marker
      \<and> len (trimmed_exec_result r) = MAX_OUTPUT_CHARS_EXEC_RESULT)
   \<and> (len t > MAX_OUTPUT_CHARS_STREAM \<longrightarrow>
      trimmed_stream t = take 50 t @ stream_marker
      \<and> len (take 50 t) = MAX_OUTPUT_CHARS_STREAM div 2
      \<and> len (trimmed_stream t) = MAX_OUTPUT_CHARS_STREAM div 2 + len stream_marker)"
proof -
  have code: "len (split_nl src) > MAX_LINES_PER_CODE_CELL \<longrightarrow>
      split_nl (trimmed_code_source src) =
        take 7 (split_nl src)
        @ [marker_line (len (split_nl src) - MAX_LINES_PER_CODE_CELL)]
        @ drop (length (split_nl src) - 8) (split_nl src)
      \<and> len (take 7 (split_nl src)) + len (drop (length (split_nl src) - 8) (split_nl src))
          = MAX_LINES_PER_CODE_CELL"
    using split_trimmed_code_source [of src]
    by (auto simp: MAX_LINES_PER_CODE_CELL_def)
  have err: "len e > MAX_ERROR_CHARS \<longrightarrow>
      trimmed_error e = take 100 e @ error_marker \<and> len (take 100 e) = MAX_ERROR_CHARS"
    by (simp add: trimmed_error_long MAX_ERROR_CHARS_def)
  have exec: "len r > MAX_OUTPUT_CHARS_EXEC_RESULT \<longrightarrow>
      trimmed_exec_result r = take 75 r @ exec_marker @ drop (length r - 25) r
      \<and> len (take 75 r) + len (drop (length r - 25) r)
          = MAX_OUTPUT_CHARS_EXEC_RESULT - len exec_marker
      \<and> len (trimmed_exec_result r) = MAX_OUTPUT_CHARS_EXEC_RESULT"
    by (auto simp: trimmed_exec_result_long MAX_OUTPUT_CHARS_EXEC_RESULT_def exec_marker_len)
  have stream: "len t > MAX_OUTPUT_CHARS_STREAM \<longrightarrow>
      trimmed_stream t = take 50 t @ stream_marker
      \<and> len (take 50 t) = MAX_OUTPUT_CHARS_STREAM div 2
      \<and> len (trimmed_stream t) = MAX_OUTPUT_CHARS_STREAM div 2 + len stream_marker"
    by (simp add: trimmed_stream_long MAX_OUTPUT_CHARS_STREAM_def stream_marker_len)
  from code err exec stream show ?thesis by blast
qed

theorem truncated_unit_counts_witness:
  "len (split_nl sixteen_lines_source) > MAX_LINES_PER_CODE_CELL
   \<and> split_nl (trimmed_code_source sixteen_lines_source) =
       map lit [''a'', ''b'', ''c'', ''d'', ''e'', ''f'', ''g'',
                ''... [CODE TRUNCATED - 1 lines omitted] ...'',
                ''i'', ''j'', ''k'', ''l'', ''m'', ''n'', ''o'', ''p'']
   \<and> len (replicate 101 (120::nat)) > MAX_ERROR_CHARS
   \<and> trimmed_error (replicate 101 120) = replicate 100 120 @ error_marker
   \<and> len (replicate 151 (120::nat)) > MAX_OUTPUT_CHARS_EXEC_RESULT
   \<and> trimmed_exec_result (replicate 151 120) = replicate 75 120 @ exec_marker @ replicate 25 120
   \<and> len (replicate 101 (120::nat)) > MAX_OUTPUT_CHARS_STREAM
   \<and> trimmed_stream (replicate 101 120) = replicate 50 120 @ stream_marker"
proof -
  have one: "marker_line 1 = lit ''... [CODE TRUNCATED - 1 lines omitted] ...''"
    by (simp add: marker_line_def str_int_def str_nat.simps lit_def)
  have l: "len (split_nl sixteen_lines_source) > MAX_LINES_PER_CODE_CELL"
    by (simp add: sixteen_lines MAX_LINES_PER_CODE_CELL_def)
  note inst = truncated_unit_counts [of sixteen_lines_source "replicate 101 120"
      "replicate 151 120" "replicate 101 120"]
  from inst l have "split_nl (trimmed_code_source sixteen_lines_source) =
        take 7 (split_nl sixteen_lines_source)
        @ [marker_line (len (split_nl sixteen_lines_source) - MAX_LINES_PER_CODE_CELL)]
        @ drop (length (split_nl sixteen_lines_source) - 8) (split_nl sixteen_lines_source)"
    by blast
  then have c: "split_nl (trimmed_code_source sixteen_lines_source) =
       map lit [''a'', ''b'', ''c'', ''d'', ''e'', ''f'', ''g'',
                ''... [CODE TRUNCATED - 1 lines omitted] ...'',
                ''i'', ''j'', ''k'', ''l'', ''m'', ''n'', ''o'', ''p'']"
    by (simp add: sixteen_lines MAX_LINES_PER_CODE_CELL_def one)
  have rest: "len (replicate 101 (120::nat)) > MAX_ERROR_CHARS
   \<and> trimmed_error (replicate 101 120) = replicate 100 120 @ error_marker
   \<and> len (replicate 151 (120::nat)) > MAX_OUTPUT_CHARS_EXEC_RESULT
   \<and> trimmed_exec_result (replicate 151 120) = replicate 75 120 @ exec_marker @ replicate 25 120
   \<and> len (replicate 101 (120::nat)) > MAX_OUTPUT_CHARS_STREAM
   \<and> trimmed_stream (replicate 101 120) = replicate 50 120 @ stream_marker"
    using inst
    by (simp add: MAX_ERROR_CHARS_def MAX_OUTPUT_CHARS_EXEC_RESULT_def MAX_OUTPUT_CHARS_STREAM_def)
  from l c rest show ?thesis by blast
qed

text \<open>
  C4 as it is written fails: a stream text of 101 characters exceeds the threshold 100, and
  the rendered text without its marker has 50 characters, not 100.
\<close>

theorem stream_units_not_max:
  "len (replicate 101 (120::nat)) > MAX_OUTPUT_CHARS_STREAM
   \<and> trimmed_stream (replicate 101 120) = replicate 50 120 @ stream_marker @ []
   \<and> len (trimmed_stream (replicate 101 120)) - len stream_marker \<noteq> MAX_OUTPUT_CHARS_STREAM"
  by (simp add: trimmed_stream_long MAX_OUTPUT_CHARS_STREAM_def)

text \<open>
  C5. In a code cell whose source has more than 15 lines, the rendered source is the first
  7 lines (floor of 15/2), then the marker that states the number of lines of the source
  minus 15, then the last 8 lines (15 - 7). A source of 20 lines gives the first 7 lines,
  the marker with "5 lines omitted" and the last 8 lines.
\<close>

theorem code_source_truncation:
  assumes "cell_type c = lit ''code''"
    and "ls = split_nl (strip (source c))"
    and "len ls > MAX_LINES_PER_CODE_CELL"
  shows "cell_parts c =
           [join [NL] (take (nat (MAX_LINES_PER_CODE_CELL div 2)) ls)
            @ lit ''\<newline>... [CODE TRUNCATED - '' @ str_int (len ls - MAX_LINES_PER_CODE_CELL)
            @ lit '' lines omitted] ...\<newline>''
            @ join [NL]
                (drop (length ls - nat (MAX_LINES_PER_CODE_CELL - MAX_LINES_PER_CODE_CELL div 2)) ls)]
         \<and> length (take (nat (MAX_LINES_PER_CODE_CELL div 2)) ls) = 7
         \<and> length
             (drop (length ls - nat (MAX_LINES_PER_CODE_CELL - MAX_LINES_PER_CODE_CELL div 2)) ls) = 8
         \<and> (length ls = 20 \<longrightarrow>
              cell_parts c =
                [join [NL] (take 7 ls)
                 @ lit ''\<newline>... [CODE TRUNCATED - 5 lines omitted] ...\<newline>''
                 @ join [NL] (drop 12 ls)])"
proof -
  from assms(3) have n: "15 < length ls" by (simp add: MAX_LINES_PER_CODE_CELL_def)
  have parts: "cell_parts c = [trimmed_code_source (strip (source c))]"
    using assms(1) by (simp add: cell_parts_def)
  have long: "trimmed_code_source (strip (source c)) =
      join [NL] (take 7 ls) @ code_marker (len ls - 15) @ join [NL] (drop (length ls - 8) ls)"
    using assms(2,3) trimmed_code_source_long [of "strip (source c)"] by simp
  have five: "str_int 5 = lit ''5''"
    by (simp add: str_int_def str_nat.simps lit_def)
  show ?thesis
    using n parts long five
    by (simp add: MAX_LINES_PER_CODE_CELL_def code_marker_def lit_def)
qed

theorem code_source_truncation_witness:
  "cell_type twenty_lines_cell = lit ''code''
   \<and> len (split_nl (strip (source twenty_lines_cell))) > MAX_LINES_PER_CODE_CELL
   \<and> length (split_nl (strip (source twenty_lines_cell))) = 20
   \<and> cell_parts twenty_lines_cell =
       [lit ''a\<newline>b\<newline>c\<newline>d\<newline>e\<newline>f\<newline>g\<newline>... [CODE TRUNCATED - 5 lines omitted] ...\<newline>m\<newline>n\<newline>o\<newline>p\<newline>q\<newline>r\<newline>s\<newline>t'']"
proof -
  have t: "cell_type twenty_lines_cell = lit ''code''"
    by (simp add: twenty_lines_cell_def)
  have l: "len (split_nl (strip (source twenty_lines_cell))) > MAX_LINES_PER_CODE_CELL"
    by (simp add: twenty_lines_cell_lines MAX_LINES_PER_CODE_CELL_def)
  have n: "length (split_nl (strip (source twenty_lines_cell))) = 20"
    by (simp add: twenty_lines_cell_lines)
  from code_source_truncation [OF t refl l] n
  have "cell_parts twenty_lines_cell =
          [join [NL] (take 7 (split_nl (strip (source twenty_lines_cell))))
           @ lit ''\<newline>... [CODE TRUNCATED - 5 lines omitted] ...\<newline>''
           @ join [NL] (drop 12 (split_nl (strip (source twenty_lines_cell))))]"
    by blast
  then have "cell_parts twenty_lines_cell =
       [lit ''a\<newline>b\<newline>c\<newline>d\<newline>e\<newline>f\<newline>g\<newline>... [CODE TRUNCATED - 5 lines omitted] ...\<newline>m\<newline>n\<newline>o\<newline>p\<newline>q\<newline>r\<newline>s\<newline>t'']"
    by (simp add: twenty_lines_cell_lines lit_def NL_def)
  with t l n show ?thesis by blast
qed

text \<open>
  C6. If the source of a cell is within the threshold of its type (at most 15 lines for a
  code cell, at most 250 characters for a markdown cell) and the text of every output is
  within the threshold of its kind (100 characters for a stream, 150 for the plain text of
  an execute_result, 100 for an error text), then the rendered body, and so the rendered
  block, is the one of the render without truncation: no truncation rule fires and no
  marker is inserted.
\<close>

theorem no_truncation_within_thresholds:
  assumes "source_within_threshold (cell_type c) (source c)"
    and "list_all output_within_threshold (outputs c)"
  shows "cell_content c = untruncated_cell_content c
         \<and> cell_header idx c @ cell_content c = cell_header idx c @ untruncated_cell_content c"
  using cell_parts_within [OF source_within_threshold_strip [OF assms(1)]]
    output_text_parts_within [OF assms(2)]
  by (simp add: cell_content_def untruncated_cell_content_def)

theorem no_truncation_within_thresholds_witness:
  "source_within_threshold (cell_type short_cell) (source short_cell)
   \<and> list_all output_within_threshold (outputs short_cell)
   \<and> cell_content short_cell = untruncated_cell_content short_cell
   \<and> cell_content short_cell =
       lit ''x = 1\<newline>print(x)\<newline>x\<newline>\<newline>Output (stream):\<newline>```\<newline>1\<newline>\<newline>```\<newline>\<newline>Output (result):\<newline>```\<newline>1\<newline>```\<newline>\<newline>Output (error):\<newline>```\<newline>Error Type: ValueError\<newline>Error Value: bad value\<newline>```''"
proof -
  have s: "source_within_threshold (cell_type short_cell) (source short_cell)"
    by (simp add: short_cell_def source_within_threshold_def lit_def NL_def
        MAX_LINES_PER_CODE_CELL_def)
  have o: "list_all output_within_threshold (outputs short_cell)"
    by (simp add: short_cell_def lit_def error_text_def MAX_OUTPUT_CHARS_STREAM_def
        MAX_OUTPUT_CHARS_EXEC_RESULT_def MAX_ERROR_CHARS_def)
  have u: "untruncated_cell_content short_cell =
       lit ''x = 1\<newline>print(x)\<newline>x\<newline>\<newline>Output (stream):\<newline>```\<newline>1\<newline>\<newline>```\<newline>\<newline>Output (result):\<newline>```\<newline>1\<newline>```\<newline>\<newline>Output (error):\<newline>```\<newline>Error Type: ValueError\<newline>Error Value: bad value\<newline>```''"
    by (simp add: untruncated_cell_content_def short_cell_def lit_def strip_def isspace_def
        fenced_def error_text_def NL_def)
  from no_truncation_within_thresholds [OF s o, of 0] u s o show ?thesis by simp
qed

text \<open>
  C7. With an empty guideline list the tool returns the string "No guidelines loaded. Use
  `load_guidelines()` first.", which contains "No guidelines loaded"; with guidelines and
  an empty cell list it returns the string "No notebook loaded. Use `load_notebook()` or
  `load_notebook_content()` first.". Both are values the tool returns: nothing is raised.
\<close>

theorem empty_state_messages:
  "(guidelines st = [] \<longrightarrow>
      get_prompt_for_claude args kwargs st =
        lit ''No guidelines loaded. Use `load_guidelines()` first.''
      \<and> contains (lit ''No guidelines loaded'') (get_prompt_for_claude args kwargs st))
   \<and> (guidelines st \<noteq> [] \<and> notebook_cells st = [] \<longrightarrow>
      get_prompt_for_claude args kwargs st =
        lit ''No notebook loaded. Use `load_notebook()` or `load_notebook_content()` first.''
      \<and> contains (lit ''No notebook loaded'') (get_prompt_for_claude args kwargs st))"
proof -
  have a: "contains (lit ''No guidelines loaded'')
             (lit ''No guidelines loaded. Use `load_guidelines()` first.'')"
    using contains_prefix [of "lit ''No guidelines loaded''"
        "lit ''. Use `load_guidelines()` first.''"]
    by (simp add: lit_def)
  have b: "contains (lit ''No notebook loaded'')
             (lit ''No notebook loaded. Use `load_notebook()` or `load_notebook_content()` first.'')"
    using contains_prefix [of "lit ''No notebook loaded''"
        "lit ''. Use `load_notebook()` or `load_notebook_content()` first.''"]
    by (simp add: lit_def)
  show ?thesis using a b by (simp add: get_prompt_for_claude_def)
qed

theorem empty_state_messages_witness:
  "guidelines empty_state = []
   \<and> get_prompt_for_claude ([] :: nat list) [] empty_state =
       lit ''No guidelines loaded. Use `load_guidelines()` first.''
   \<and> guidelines guidelines_only_state \<noteq> [] \<and> notebook_cells guidelines_only_state = []
   \<and> get_prompt_for_claude ([] :: nat list) [] guidelines_only_state =
       lit ''No notebook loaded. Use `load_notebook()` or `load_notebook_content()` first.''"
  using empty_state_messages [of empty_state "[] :: nat list" "[]"]
    empty_state_messages [of guidelines_only_state "[] :: nat list" "[]"]
  by (simp add: empty_state_def guidelines_only_state_def)

text \<open>
  C8. When guidelines and a notebook are loaded, the prompt is the preamble, the notebook
  content, the delimiter lines and, between "--- REVIEW GUIDELINES ---" and
  "--- END REVIEW GUIDELINES ---", one line for each guideline, the line at position k
  (counted from 0) being "Guideline k+1: " followed by the k-th guideline and a newline;
  there are as many lines as guidelines, in the order of the list.
\<close>

theorem guidelines_numbered_in_order:
  assumes "guidelines st \<noteq> []" and "notebook_cells st \<noteq> []"
  shows "get_prompt_for_claude args kwargs st =
           prompt_preamble @ final_notebook_content_str (notebook_cells st)
           @ lit ''\<newline>--- END NOTEBOOK CONTENT ---\<newline>\<newline>''
           @ lit ''--- REVIEW GUIDELINES ---\<newline>''
           @ concat (numbered_guidelines (guidelines st))
           @ lit ''--- END REVIEW GUIDELINES ---\<newline>\<newline>''
           @ analysis_body
         \<and> length (numbered_guidelines (guidelines st)) = length (guidelines st)
         \<and> (\<forall>k < length (guidelines st).
              numbered_guidelines (guidelines st) ! k =
                lit ''Guideline '' @ str_int (1 + int k) @ lit '': '' @ guidelines st ! k @ [NL])"
  using assms
  by (simp add: get_prompt_for_claude_def build_prompt_eq numbered_guidelines_def
      guideline_line_def)

theorem guidelines_numbered_in_order_witness:
  "guidelines two_guidelines_state \<noteq> [] \<and> notebook_cells two_guidelines_state \<noteq> []
   \<and> numbered_guidelines (guidelines two_guidelines_state) =
       [lit ''Guideline 1: Name every variable clearly\<newline>'',
        lit ''Guideline 2: Explain each plot\<newline>'']
   \<and> get_prompt_for_claude ([] :: nat list) [] two_guidelines_state =
       prompt_preamble @ lit ''# Cell 1 - Markdown\<newline>Intro''
       @ lit ''\<newline>--- END NOTEBOOK CONTENT ---\<newline>\<newline>''
       @ lit ''--- REVIEW GUIDELINES ---\<newline>''
       @ lit ''Guideline 1: Name every variable clearly\<newline>''
       @ lit ''Guideline 2: Explain each plot\<newline>''
       @ lit ''--- END REVIEW GUIDELINES ---\<newline>\<newline>''
       @ analysis_body"
proof -
  have g: "guidelines two_guidelines_state \<noteq> []" and n: "notebook_cells two_guidelines_state \<noteq> []"
    by (simp_all add: two_guidelines_state_def)
  have digits: "str_int 1 = lit ''1''" "str_int 2 = lit ''2''"
    by (simp_all add: str_int_def str_nat.simps lit_def)
  have lines: "numbered_guidelines (guidelines two_guidelines_state) =
       [lit ''Guideline 1: Name every variable clearly\<newline>'',
        lit ''Guideline 2: Explain each plot\<newline>'']"
    by (simp add: numbered_guidelines_def two_guidelines_state_def guideline_line_def digits
        upt_rec [of 0] upt_rec [of 1] upt_rec [of 2])
      (simp add: lit_def NL_def)
  have src: "strip (lit ''Intro'') = lit ''Intro''"
    by (simp add: strip_def lit_def isspace_def)
  have hdr: "cell_header 0 \<lparr> cell_type = lit ''markdown'', source = lit ''Intro'', outputs = [] \<rparr> =
       lit ''# Cell 1 - Markdown\<newline>''"
    by (simp add: cell_header_def digits) (simp add: lit_def NL_def upper_char_def lower_char_def)
  have body: "cell_content \<lparr> cell_type = lit ''markdown'', source = lit ''Intro'', outputs = [] \<rparr> =
       lit ''Intro''"
    by (simp add: cell_content_def cell_parts_def output_text_parts_def src)
      (simp add: lit_def trimmed_md_source_def MAX_CHARS_PER_MD_CELL_def)
  have nb: "final_notebook_content_str (notebook_cells two_guidelines_state) =
       lit ''# Cell 1 - Markdown\<newline>Intro''"
    by (simp add: final_notebook_content_str_def trimmed_cells_content_def
        two_guidelines_state_def hdr body MAX_TOTAL_NOTEBOOK_CHARS_def)
      (simp add: lit_def)
  from guidelines_numbered_in_order [OF g n, of "[] :: nat list" "[]"] g n lines nb
  show ?thesis by simp
qed


text \<open>
  C10. The tool ignores its positional and keyword arguments: in one state, any two
  argument lists give the same string.
\<close>

theorem arguments_ignored:
  "get_prompt_for_claude args1 kwargs1 st = get_prompt_for_claude args2 kwargs2 st"
  by (simp add: get_prompt_for_claude_def)

end
